theory Spec2Isabelle
  imports Complex_Main
begin

section \<open>Entity models\<close>

text \<open>
  The classes \<open>Bike\<close> and \<open>Booking\<close> of \<open>bikerental.py\<close> are plain field holders.
  Strings are byte lists, so the model covers ASCII text. Prices and amounts
  are Python floats in the source; the model computes with exact rationals.
  The field \<open>bike_id\<close> of \<open>Booking\<close> is named \<open>booked_bike_id\<close> here, since a
  record field is a global constant and \<open>Bike\<close> already has a \<open>bike_id\<close>.
  The status of a booking is a string in the source and stays one here.
\<close>

record bike =
  bike_id :: string
  name :: string
  color :: string
  plate_number :: string
  price_per_day :: rat
  location :: string
  available :: bool

record booking =
  booking_id :: string
  customer_username :: string
  booked_bike_id :: string
  pickup_location :: string
  from_date :: string
  to_date :: string
  total_amount :: rat
  status :: string

section \<open>Console input\<close>

text \<open>
  Every operation of the source reads its arguments with \<open>input()\<close>. The model
  passes them as parameters, in the order in which they are read. A parameter
  of type \<open>string\<close> is the line as typed; the model applies \<open>strip\<close> and
  \<open>lower\<close> where the source does. \<open>int(...)\<close> and \<open>float(...)\<close> are library
  parsers: their parameter is the parsed value, \<open>None\<close> when the parser raises
  \<open>ValueError\<close>. The digits drawn by \<open>random.choices(string.digits, k=n)\<close> are a
  parameter as well, and so is the value of \<open>datetime.datetime.now()\<close>.
\<close>

definition is_space :: "char \<Rightarrow> bool" where
  "is_space c = ((of_char c :: nat) \<in> set [9, 10, 11, 12, 13, 28, 29, 30, 31, 32])"

definition strip :: "string \<Rightarrow> string" where
  "strip s = rev (dropWhile is_space (rev (dropWhile is_space s)))"

text \<open>An upper-case ASCII letter becomes lower case by setting the bit of value 32.\<close>

definition lower_char :: "char \<Rightarrow> char" where
  "lower_char c =
     (let n = (of_char c :: nat) in
      if 65 \<le> n \<and> n \<le> 90
      then (case c of Char b0 b1 b2 b3 b4 b5 b6 b7 \<Rightarrow> Char b0 b1 b2 b3 b4 True b6 b7)
      else c)"

definition lower :: "string \<Rightarrow> string" where
  "lower s = map lower_char s"

section \<open>Dates\<close>

text \<open>
  \<open>datetime\<close> objects are compared field by field, from the year down to the
  microsecond. \<open>strptime_ymd\<close> models \<open>datetime.datetime.strptime(s, "%Y-%m-%d")\<close>
  of the Python library: four digits, a month written \<open>1\<close> to \<open>12\<close> with an optional
  leading zero, a day written \<open>1\<close> to \<open>31\<close> with an optional leading zero or
  space, and a day that exists in that month; the result is midnight of that
  day and \<open>None\<close> stands for \<open>ValueError\<close>. \<open>toordinal\<close> and the day count of a
  difference follow the library's proleptic Gregorian arithmetic.
\<close>

record datetime =
  year :: nat
  month :: nat
  day :: nat
  hour :: nat
  minute :: nat
  second :: nat
  microsecond :: nat

fun lex_less :: "nat list \<Rightarrow> nat list \<Rightarrow> bool" where
  "lex_less (x # xs) (y # ys) = (x < y \<or> (x = y \<and> lex_less xs ys))"
| "lex_less _ _ = False"

definition dt_key :: "datetime \<Rightarrow> nat list" where
  "dt_key d = [year d, month d, day d, hour d, minute d, second d, microsecond d]"

definition dt_less :: "datetime \<Rightarrow> datetime \<Rightarrow> bool" where
  "dt_less a b = lex_less (dt_key a) (dt_key b)"

text \<open>
  The specification speaks of a date before the current date: the calendar day of
  \<open>a\<close> precedes the calendar day of \<open>b\<close>, whatever the time of day.
\<close>

definition date_before :: "datetime \<Rightarrow> datetime \<Rightarrow> bool" where
  "date_before a b = lex_less [year a, month a, day a] [year b, month b, day b]"

definition is_leap :: "nat \<Rightarrow> bool" where
  "is_leap y = (y mod 4 = 0 \<and> (y mod 100 \<noteq> 0 \<or> y mod 400 = 0))"

definition days_in_month :: "nat \<Rightarrow> nat \<Rightarrow> nat" where
  "days_in_month y m =
     (if m = 2 \<and> is_leap y then 29
      else [0, 31, 28, 31, 30, 31, 30, 31, 31, 30, 31, 30, 31] ! m)"

definition days_before_year :: "nat \<Rightarrow> nat" where
  "days_before_year y =
     (let z = y - 1 in z * 365 + z div 4 - z div 100 + z div 400)"

definition days_before_month :: "nat \<Rightarrow> nat \<Rightarrow> nat" where
  "days_before_month y m =
     [0, 0, 31, 59, 90, 120, 151, 181, 212, 243, 273, 304, 334] ! m
       + (if 2 < m \<and> is_leap y then 1 else 0)"

definition toordinal :: "datetime \<Rightarrow> nat" where
  "toordinal d = days_before_year (year d) + days_before_month (year d) (month d) + day d"

definition microseconds_of :: "datetime \<Rightarrow> int" where
  "microseconds_of d =
     (((int (toordinal d) * 24 + int (hour d)) * 60 + int (minute d)) * 60
        + int (second d)) * 1000000 + int (microsecond d)"

text \<open>\<open>(a - b).days\<close>: a \<open>timedelta\<close> is normalised, its days are the floor.\<close>

definition timedelta_days :: "datetime \<Rightarrow> datetime \<Rightarrow> int" where
  "timedelta_days a b = (microseconds_of a - microseconds_of b) div 86400000000"

definition digit_of :: "char \<Rightarrow> nat option" where
  "digit_of c =
     (let n = (of_char c :: nat) in if 48 \<le> n \<and> n \<le> 57 then Some (n - 48) else None)"

fun read_digits :: "nat \<Rightarrow> string \<Rightarrow> nat option" where
  "read_digits acc [] = Some acc"
| "read_digits acc (c # cs) =
     (case digit_of c of None \<Rightarrow> None | Some v \<Rightarrow> read_digits (acc * 10 + v) cs)"

definition read_year :: "string \<Rightarrow> nat option" where
  "read_year s = (if length s = 4 then read_digits 0 s else None)"

definition read_month :: "string \<Rightarrow> nat option" where
  "read_month s =
     (if length s = 1 \<or> length s = 2 then
        (case read_digits 0 s of
           None \<Rightarrow> None
         | Some m \<Rightarrow> if 1 \<le> m \<and> m \<le> 12 then Some m else None)
      else None)"

definition read_day :: "string \<Rightarrow> nat option" where
  "read_day s =
     (let t = (case s of [c, d] \<Rightarrow> if c = CHR '' '' \<and> d \<noteq> CHR ''0'' then [d] else s | _ \<Rightarrow> s)
      in if length t = 1 \<or> length t = 2 then
           (case read_digits 0 t of
              None \<Rightarrow> None
            | Some d \<Rightarrow> if 1 \<le> d \<and> d \<le> 31 then Some d else None)
         else None)"

definition strptime_ymd :: "string \<Rightarrow> datetime option" where
  "strptime_ymd s =
     (if length s < 5 \<or> s ! 4 \<noteq> CHR ''-'' then None
      else
        let rest = drop 5 s;
            ms = takeWhile (\<lambda>c. c \<noteq> CHR ''-'') rest;
            ds = dropWhile (\<lambda>c. c \<noteq> CHR ''-'') rest
        in if ds = [] then None
           else
             (case (read_year (take 4 s), read_month ms, read_day (drop 1 ds)) of
                (Some y, Some m, Some d) \<Rightarrow>
                  if 1 \<le> y \<and> d \<le> days_in_month y m
                  then Some \<lparr>year = y, month = m, day = d, hour = 0, minute = 0,
                             second = 0, microsecond = 0\<rparr>
                  else None
              | _ \<Rightarrow> None))"

section \<open>The store and the operations\<close>

text \<open>
  Every operation loads the collections it needs with \<open>load_bikes\<close> and
  \<open>load_bookings\<close>, changes the loaded objects in memory and writes whole
  collections back with \<open>save_bikes\<close>, \<open>save_bookings\<close>, \<open>save_booking\<close> or
  \<open>save_all_data\<close>. The store of the model holds, for each of the two files, the list
  of records that the loader returns from it; a save replaces that list. The JSON
  text of the files, written and read by the \<open>json\<close> library, is not part of the
  model. An operation returns what it reports on the console together with the
  store it leaves.
\<close>

record store =
  bikes :: "bike list"
  bookings :: "booking list"

text \<open>\<open>next((x for x in xs if P(x)), None)\<close>, as the position of the object found.\<close>

fun first_index :: "('a \<Rightarrow> bool) \<Rightarrow> 'a list \<Rightarrow> nat option" where
  "first_index P [] = None"
| "first_index P (x # xs) =
     (if P x then Some 0 else map_option Suc (first_index P xs))"

text \<open>
  \<open>for bike in bikes: if bike.bike_id == bid: bike.available = v; break\<close>
\<close>

fun set_availability :: "string \<Rightarrow> bool \<Rightarrow> bike list \<Rightarrow> bike list" where
  "set_availability bid v [] = []"
| "set_availability bid v (b # bs) =
     (if bike_id b = bid then b\<lparr>available := v\<rparr> # bs
      else b # set_availability bid v bs)"

text \<open>\<open>save_booking\<close> loads the bookings, appends one and writes them back.\<close>

definition save_booking :: "booking \<Rightarrow> store \<Rightarrow> store" where
  "save_booking k st = st\<lparr>bookings := bookings st @ [k]\<rparr>"

definition save_all_data :: "bike list \<Rightarrow> booking list \<Rightarrow> store \<Rightarrow> store" where
  "save_all_data bs ks st = (st\<lparr>bikes := bs\<rparr>)\<lparr>bookings := ks\<rparr>"

subsection \<open>Customer\<close>

definition view_booking_status :: "string \<Rightarrow> string \<Rightarrow> store \<Rightarrow> booking option" where
  "view_booking_status username booking_id_in st =
     (let bid = strip booking_id_in in
      find (\<lambda>b. booking_id b = bid \<and> customer_username b = username) (bookings st))"

datatype book_result =
    Invalid_date_format
  | From_after_to
  | From_in_past
  | No_bikes_available
  | Invalid_input
  | Invalid_bike_number
  | Booking_cancelled
  | Booking_successful string

definition book_bike ::
  "string \<Rightarrow> string \<Rightarrow> string \<Rightarrow> string \<Rightarrow> datetime \<Rightarrow> int option \<Rightarrow> string \<Rightarrow> string
     \<Rightarrow> store \<Rightarrow> book_result \<times> store" where
  "book_bike username pickup_in from_in to_in now bike_choice confirm_in digits st =
     (let pickup = strip pickup_in; from_s = strip from_in; to_s = strip to_in in
      case strptime_ymd from_s of
        None \<Rightarrow> (Invalid_date_format, st)
      | Some from_dt \<Rightarrow>
     (case strptime_ymd to_s of
        None \<Rightarrow> (Invalid_date_format, st)
      | Some to_dt \<Rightarrow>
        if dt_less to_dt from_dt then (From_after_to, st)
        else if dt_less from_dt now then (From_in_past, st)
        else
          let available_bikes =
                filter (\<lambda>b. available b \<and> lower (location b) = lower pickup) (bikes st)
          in if available_bikes = [] then (No_bikes_available, st)
             else
               (case bike_choice of
                  None \<Rightarrow> (Invalid_input, st)
                | Some c \<Rightarrow>
                    if 1 \<le> c \<and> c \<le> int (length available_bikes) then
                      let selected_bike = available_bikes ! nat (c - 1);
                          rental_days = timedelta_days to_dt from_dt + 1;
                          amount = price_per_day selected_bike * of_int rental_days
                      in if lower confirm_in = ''yes'' then
                           let bkg = ''BKG'' @ digits
                           in (Booking_successful bkg,
                               save_booking
                                 \<lparr>booking_id = bkg, customer_username = username,
                                  booked_bike_id = bike_id selected_bike,
                                  pickup_location = pickup, from_date = from_s,
                                  to_date = to_s, total_amount = amount,
                                  status = ''Pending''\<rparr> st)
                         else (Booking_cancelled, st)
                    else (Invalid_bike_number, st))))"

datatype payment_result =
    Payment_not_found
  | Payment_refused string
  | Payment_cancelled
  | Payment_successful

definition make_payment ::
  "string \<Rightarrow> string \<Rightarrow> string \<Rightarrow> store \<Rightarrow> payment_result \<times> store" where
  "make_payment username booking_id_in choice st =
     (let bid = strip booking_id_in; ks = bookings st in
      case first_index (\<lambda>b. booking_id b = bid \<and> customer_username b = username) ks of
        None \<Rightarrow> (Payment_not_found, st)
      | Some i \<Rightarrow>
          let k = ks ! i in
          if status k \<noteq> ''Approved'' then (Payment_refused (status k), st)
          else if choice \<in> set [''1'', ''2'', ''3''] then
            (Payment_successful,
             save_all_data (set_availability (booked_bike_id k) False (bikes st))
               (ks[i := k\<lparr>status := ''Completed''\<rparr>]) st)
          else (Payment_cancelled, st))"

subsection \<open>Admin\<close>

datatype add_result = Invalid_price | Bike_added string

definition add_bike ::
  "string \<Rightarrow> string \<Rightarrow> string \<Rightarrow> string \<Rightarrow> rat option \<Rightarrow> string \<Rightarrow> store
     \<Rightarrow> add_result \<times> store" where
  "add_bike digits name_in color_in plate_in price location_in st =
     (let bid = ''BIKE'' @ digits in
      case price of
        None \<Rightarrow> (Invalid_price, st)
      | Some p \<Rightarrow>
          (Bike_added bid,
           st\<lparr>bikes := bikes st @
              [\<lparr>bike_id = bid, name = strip name_in, color = strip color_in,
                plate_number = strip plate_in, price_per_day = p,
                location = strip location_in, available = True\<rparr>]\<rparr>))"

datatype update_result = Update_not_found | Bike_updated

text \<open>
  \<open>price_in\<close> is the line typed for the price and \<open>price\<close> what \<open>float\<close> makes of it
  (\<open>None\<close>: the price is left as it is, with a warning).
\<close>

definition update_bike ::
  "string \<Rightarrow> string \<Rightarrow> string \<Rightarrow> string \<Rightarrow> string \<Rightarrow> rat option \<Rightarrow> string \<Rightarrow> store
     \<Rightarrow> update_result \<times> store" where
  "update_bike bike_id_in name_in color_in plate_in price_in price location_in st =
     (let bid = strip bike_id_in; bs = bikes st in
      case first_index (\<lambda>b. bike_id b = bid) bs of
        None \<Rightarrow> (Update_not_found, st)
      | Some i \<Rightarrow>
          let b0 = bs ! i;
              b1 = (if strip name_in \<noteq> [] then b0\<lparr>name := strip name_in\<rparr> else b0);
              b2 = (if strip color_in \<noteq> [] then b1\<lparr>color := strip color_in\<rparr> else b1);
              b3 = (if strip plate_in \<noteq> []
                    then b2\<lparr>plate_number := strip plate_in\<rparr> else b2);
              b4 = (if strip price_in \<noteq> []
                    then (case price of None \<Rightarrow> b3 | Some p \<Rightarrow> b3\<lparr>price_per_day := p\<rparr>)
                    else b3);
              b5 = (if strip location_in \<noteq> []
                    then b4\<lparr>location := strip location_in\<rparr> else b4)
          in (Bike_updated, st\<lparr>bikes := bs[i := b5]\<rparr>))"

datatype delete_result =
    Delete_not_found
  | Deletion_cancelled
  | Delete_blocked nat
  | Bike_deleted

definition delete_bike :: "string \<Rightarrow> string \<Rightarrow> store \<Rightarrow> delete_result \<times> store" where
  "delete_bike bike_id_in confirm_in st =
     (let bid = strip bike_id_in; bs = bikes st in
      case first_index (\<lambda>b. bike_id b = bid) bs of
        None \<Rightarrow> (Delete_not_found, st)
      | Some i \<Rightarrow>
          if lower confirm_in = ''yes'' then
            let active_bookings =
                  filter (\<lambda>b. booked_bike_id b = bid
                             \<and> status b \<in> set [''Pending'', ''Approved''])
                    (bookings st)
            in if active_bookings \<noteq> [] then (Delete_blocked (length active_bookings), st)
               else (Bike_deleted, st\<lparr>bikes := filter (\<lambda>b. bike_id b \<noteq> bid) bs\<rparr>)
          else (Deletion_cancelled, st))"

datatype manage_result =
    No_pending_bookings
  | Manage_invalid_input
  | Manage_cancelled
  | Invalid_selection
  | Booking_approved string
  | Booking_rejected string
  | Action_cancelled

text \<open>
  \<open>pending_bookings\<close> holds the objects of \<open>bookings\<close> whose status is Pending; the
  model keeps their positions, so that the assignment to
  \<open>selected_booking.status\<close> is an update of \<open>bookings\<close> at that position.
\<close>

definition pending_positions :: "booking list \<Rightarrow> nat list" where
  "pending_positions ks = filter (\<lambda>i. status (ks ! i) = ''Pending'') [0..<length ks]"

definition manage_bookings :: "int option \<Rightarrow> string \<Rightarrow> store \<Rightarrow> manage_result \<times> store" where
  "manage_bookings choice action st =
     (let ks = bookings st; pending = pending_positions ks in
      if pending = [] then (No_pending_bookings, st)
      else
        (case choice of
           None \<Rightarrow> (Manage_invalid_input, st)
         | Some c \<Rightarrow>
             if c = 0 then (Manage_cancelled, st)
             else if 1 \<le> c \<and> c \<le> int (length pending) then
               let i = pending ! nat (c - 1); k = ks ! i in
               if action = ''1'' then
                 (Booking_approved (booking_id k),
                  st\<lparr>bookings := ks[i := k\<lparr>status := ''Approved''\<rparr>]\<rparr>)
               else if action = ''2'' then
                 (Booking_rejected (booking_id k),
                  save_all_data (set_availability (booked_bike_id k) True (bikes st))
                    (ks[i := k\<lparr>status := ''Rejected''\<rparr>]) st)
               else (Action_cancelled, st)
             else (Invalid_selection, st)))"

subsection \<open>Runs of operations\<close>

datatype operation =
    Book_bike string string string string datetime "int option" string string
  | Make_payment string string string
  | Add_bike string string string string "rat option" string
  | Update_bike string string string string string "rat option" string
  | Delete_bike string string
  | Manage_bookings "int option" string

fun run :: "operation \<Rightarrow> store \<Rightarrow> store" where
  "run (Book_bike u p f t now c y d) st = snd (book_bike u p f t now c y d st)"
| "run (Make_payment u b c) st = snd (make_payment u b c st)"
| "run (Add_bike d n c p r l) st = snd (add_bike d n c p r l st)"
| "run (Update_bike b n c p r v l) st = snd (update_bike b n c p r v l st)"
| "run (Delete_bike b y) st = snd (delete_bike b y st)"
| "run (Manage_bookings c a) st = snd (manage_bookings c a st)"

fun run_all :: "operation list \<Rightarrow> store \<Rightarrow> store" where
  "run_all [] st = st"
| "run_all (x # xs) st = run_all xs (run x st)"

definition legal_transition :: "string \<Rightarrow> string \<Rightarrow> bool" where
  "legal_transition s t =
     ((s = ''Pending'' \<and> t = ''Approved'') \<or> (s = ''Pending'' \<and> t = ''Rejected'')
        \<or> (s = ''Approved'' \<and> t = ''Completed''))"

subsection \<open>A concrete store\<close>

text \<open>
  \<open>sample_bikes\<close> are the bikes that \<open>initialize_files\<close> writes on the first run.
  \<open>example_store\<close> is a later state of that store: alice has paid for
  \<open>BIKE0003\<close>, which is therefore rented, and four more bookings are in the
  states Pending, Approved, Rejected and Pending.
\<close>

definition sample_bikes :: "bike list" where
  "sample_bikes =
     [\<lparr>bike_id = ''BIKE0001'', name = ''Yamaha R15'', color = ''Blue'',
       plate_number = ''MH01AB1234'', price_per_day = 25, location = ''Downtown'',
       available = True\<rparr>,
      \<lparr>bike_id = ''BIKE0002'', name = ''Royal Enfield Classic 350'', color = ''Black'',
       plate_number = ''MH02CD5678'', price_per_day = 35, location = ''Uptown'',
       available = True\<rparr>,
      \<lparr>bike_id = ''BIKE0003'', name = ''Honda CB Shine'', color = ''Red'',
       plate_number = ''MH03EF9012'', price_per_day = 20, location = ''Suburbs'',
       available = True\<rparr>,
      \<lparr>bike_id = ''BIKE0004'', name = ''Bajaj Pulsar 150'', color = ''White'',
       plate_number = ''MH04GH3456'', price_per_day = 22, location = ''Downtown'',
       available = True\<rparr>,
      \<lparr>bike_id = ''BIKE0005'', name = ''KTM Duke 200'', color = ''Orange'',
       plate_number = ''MH05IJ7890'', price_per_day = 30, location = ''Uptown'',
       available = True\<rparr>]"

definition example_bookings :: "booking list" where
  "example_bookings =
     [\<lparr>booking_id = ''BKG000001'', customer_username = ''alice'',
       booked_bike_id = ''BIKE0001'', pickup_location = ''Downtown'',
       from_date = ''2024-01-01'', to_date = ''2024-01-03'', total_amount = 75,
       status = ''Pending''\<rparr>,
      \<lparr>booking_id = ''BKG000002'', customer_username = ''bob'',
       booked_bike_id = ''BIKE0002'', pickup_location = ''Uptown'',
       from_date = ''2024-02-01'', to_date = ''2024-02-02'', total_amount = 70,
       status = ''Approved''\<rparr>,
      \<lparr>booking_id = ''BKG000003'', customer_username = ''alice'',
       booked_bike_id = ''BIKE0003'', pickup_location = ''Suburbs'',
       from_date = ''2024-01-10'', to_date = ''2024-01-10'', total_amount = 20,
       status = ''Completed''\<rparr>,
      \<lparr>booking_id = ''BKG000004'', customer_username = ''bob'',
       booked_bike_id = ''BIKE0004'', pickup_location = ''Downtown'',
       from_date = ''2024-03-01'', to_date = ''2024-03-01'', total_amount = 22,
       status = ''Rejected''\<rparr>,
      \<lparr>booking_id = ''BKG000005'', customer_username = ''bob'',
       booked_bike_id = ''BIKE0003'', pickup_location = ''Suburbs'',
       from_date = ''2024-01-10'', to_date = ''2024-01-11'', total_amount = 40,
       status = ''Pending''\<rparr>]"

definition example_store :: store where
  "example_store =
     \<lparr>bikes = set_availability ''BIKE0003'' False sample_bikes,
      bookings = example_bookings\<rparr>"

text \<open>
  \<open>duplicate_store\<close> is what \<open>add_bike\<close> leaves when the four digits drawn are
  \<open>0004\<close>: two bikes carry the identifier \<open>BIKE0004\<close>.
\<close>

definition duplicate_store :: store where
  "duplicate_store =
     snd (add_bike ''0004'' ''Hero Splendor'' ''Grey'' ''MH06KL1234'' (Some 18) ''Uptown''
       example_store)"

section \<open>Facts about the list helpers\<close>

lemma first_index_SomeD:
  "first_index P xs = Some i \<Longrightarrow> i < length xs \<and> P (xs ! i) \<and> (\<forall>j<i. \<not> P (xs ! j))"
proof (induction xs arbitrary: i)
  case Nil
  then show ?case by simp
next
  case (Cons x xs)
  show ?case
  proof (cases "P x")
    case True
    with Cons.prems show ?thesis by simp
  next
    case False
    with Cons.prems obtain j where j: "first_index P xs = Some j" "i = Suc j"
      by auto
    from Cons.IH [OF j(1)] False j(2) show ?thesis
      by (auto simp: nth_Cons split: nat.splits)
  qed
qed

lemma first_index_None_iff: "first_index P xs = None \<longleftrightarrow> (\<forall>x\<in>set xs. \<not> P x)"
  by (induction xs) auto

lemma find_first_index: "find P xs = map_option (\<lambda>i. xs ! i) (first_index P xs)"
  by (induction xs) (auto simp: option.map_comp comp_def)

lemma length_set_availability: "length (set_availability bid v bs) = length bs"
  by (induction bs) auto

lemma set_availability_first_index:
  "set_availability bid v bs =
     (case first_index (\<lambda>b. bike_id b = bid) bs of
        None \<Rightarrow> bs
      | Some i \<Rightarrow> bs[i := (bs ! i)\<lparr>available := v\<rparr>])"
  by (induction bs) (auto split: option.splits)

lemma find_set_availability:
  "find (\<lambda>b. bike_id b = bid) (set_availability bid v bs) =
     map_option (\<lambda>b. b\<lparr>available := v\<rparr>) (find (\<lambda>b. bike_id b = bid) bs)"
  by (induction bs) auto

lemma map_bike_id_set_availability:
  "map bike_id (set_availability bid v bs) = map bike_id bs"
  by (induction bs) auto

lemma pending_positionsD:
  "i \<in> set (pending_positions ks) \<Longrightarrow> i < length ks \<and> status (ks ! i) = ''Pending''"
  by (auto simp: pending_positions_def)

lemma pending_positions_nth:
  "1 \<le> c \<Longrightarrow> c \<le> int (length (pending_positions ks)) \<Longrightarrow>
     pending_positions ks ! nat (c - 1) < length ks \<and>
     status (ks ! (pending_positions ks ! nat (c - 1))) = ''Pending''"
  by (rule pending_positionsD) (simp add: nth_mem)

lemma filter_remove1_distinct:
  "distinct (map f xs) \<Longrightarrow> x \<in> set xs \<Longrightarrow> filter (\<lambda>y. f y \<noteq> f x) xs = remove1 x xs"
proof (induction xs)
  case Nil
  then show ?case by simp
next
  case (Cons a xs)
  show ?case
  proof (cases "a = x")
    case True
    from Cons.prems have "f a \<notin> f ` set xs" by simp
    then have "\<forall>y\<in>set xs. f y \<noteq> f a" by (metis imageI)
    then have "filter (\<lambda>y. f y \<noteq> f a) xs = xs" by (simp add: filter_id_conv)
    with True show ?thesis by simp
  next
    case False
    with Cons.prems have "x \<in> set xs" "f a \<noteq> f x" by auto
    with Cons show ?thesis using False by simp
  qed
qed

section \<open>What each operation does to the store\<close>

lemma book_bike_success:
  assumes "strptime_ymd (strip f) = Some from_dt" and "strptime_ymd (strip t) = Some to_dt"
    and "\<not> dt_less to_dt from_dt" and "\<not> dt_less from_dt now"
    and "c = Some n" and "1 \<le> n"
    and "n \<le> int (length (filter (\<lambda>b. available b \<and> lower (location b) = lower (strip p))
           (bikes st)))"
    and "lower y = ''yes''"
  shows "book_bike u p f t now c y d st =
     (Booking_successful (''BKG'' @ d),
      st\<lparr>bookings := bookings st @
        [\<lparr>booking_id = ''BKG'' @ d, customer_username = u,
          booked_bike_id = bike_id (filter (\<lambda>b. available b \<and>
             lower (location b) = lower (strip p)) (bikes st) ! nat (n - 1)),
          pickup_location = strip p, from_date = strip f, to_date = strip t,
          total_amount = price_per_day (filter (\<lambda>b. available b \<and>
             lower (location b) = lower (strip p)) (bikes st) ! nat (n - 1))
             * of_int (timedelta_days to_dt from_dt + 1),
          status = ''Pending''\<rparr>]\<rparr>)"
proof -
  from assms(6,7) have "filter (\<lambda>b. available b \<and> lower (location b) = lower (strip p))
      (bikes st) \<noteq> []"
    by auto
  with assms show ?thesis
    by (simp add: book_bike_def save_booking_def Let_def)
qed

lemma book_bike_reject:
  assumes "\<not> (\<exists>from_dt to_dt n. strptime_ymd (strip f) = Some from_dt \<and>
      strptime_ymd (strip t) = Some to_dt \<and> \<not> dt_less to_dt from_dt \<and>
      \<not> dt_less from_dt now \<and> c = Some n \<and> 1 \<le> n \<and>
      n \<le> int (length (filter (\<lambda>b. available b \<and> lower (location b) = lower (strip p))
           (bikes st))) \<and> lower y = ''yes'')"
  shows "snd (book_bike u p f t now c y d st) = st \<and>
     (\<forall>bkg. fst (book_bike u p f t now c y d st) \<noteq> Booking_successful bkg)"
  using assms by (auto simp: book_bike_def Let_def split: option.splits)

lemma book_bike_cases:
  "snd (book_bike u p f t now c y d st) = st \<or>
   (\<exists>k. snd (book_bike u p f t now c y d st) = st\<lparr>bookings := bookings st @ [k]\<rparr> \<and>
        fst (book_bike u p f t now c y d st) = Booking_successful (booking_id k) \<and>
        status k = ''Pending'' \<and> customer_username k = u)"
proof (cases "\<exists>from_dt to_dt n. strptime_ymd (strip f) = Some from_dt \<and>
      strptime_ymd (strip t) = Some to_dt \<and> \<not> dt_less to_dt from_dt \<and>
      \<not> dt_less from_dt now \<and> c = Some n \<and> 1 \<le> n \<and>
      n \<le> int (length (filter (\<lambda>b. available b \<and> lower (location b) = lower (strip p))
           (bikes st))) \<and> lower y = ''yes''")
  case True
  then obtain from_dt to_dt n where h:
    "strptime_ymd (strip f) = Some from_dt" "strptime_ymd (strip t) = Some to_dt"
    "\<not> dt_less to_dt from_dt" "\<not> dt_less from_dt now" "c = Some n" "1 \<le> n"
    "n \<le> int (length (filter (\<lambda>b. available b \<and> lower (location b) = lower (strip p))
           (bikes st)))" "lower y = ''yes''"
    by blast
  show ?thesis
    by (rule disjI2, simp only: book_bike_success [OF h] fst_conv snd_conv,
        intro exI conjI, rule refl, simp_all)
next
  case False
  from book_bike_reject [OF False] show ?thesis by simp
qed

lemma make_payment_cases:
  "snd (make_payment u b c st) = st \<or>
   (\<exists>i. i < length (bookings st) \<and> status (bookings st ! i) = ''Approved'' \<and>
        customer_username (bookings st ! i) = u \<and>
        booking_id (bookings st ! i) = strip b \<and>
        fst (make_payment u b c st) = Payment_successful \<and>
        snd (make_payment u b c st) =
          st\<lparr>bikes := set_availability (booked_bike_id (bookings st ! i)) False (bikes st),
             bookings := (bookings st)[i := (bookings st ! i)\<lparr>status := ''Completed''\<rparr>]\<rparr>)"
proof (cases "first_index (\<lambda>k. booking_id k = strip b \<and> customer_username k = u) (bookings st)")
  case None
  then show ?thesis by (simp add: make_payment_def)
next
  case (Some i)
  from first_index_SomeD [OF Some]
  have i: "i < length (bookings st)" "booking_id (bookings st ! i) = strip b"
    "customer_username (bookings st ! i) = u"
    by simp_all
  show ?thesis
  proof (cases "status (bookings st ! i) = ''Approved'' \<and> c \<in> set [''1'', ''2'', ''3'']")
    case True
    with Some i show ?thesis
      by (intro disjI2 exI [of _ i]) (simp add: make_payment_def save_all_data_def Let_def)
  next
    case False
    with Some show ?thesis
      by (auto simp: make_payment_def Let_def)
  qed
qed

lemma manage_bookings_cases:
  "snd (manage_bookings c a st) = st \<or>
   (\<exists>i. i < length (bookings st) \<and> status (bookings st ! i) = ''Pending'' \<and>
      ((fst (manage_bookings c a st) = Booking_approved (booking_id (bookings st ! i)) \<and>
        snd (manage_bookings c a st) =
          st\<lparr>bookings := (bookings st)[i := (bookings st ! i)\<lparr>status := ''Approved''\<rparr>]\<rparr>) \<or>
       (fst (manage_bookings c a st) = Booking_rejected (booking_id (bookings st ! i)) \<and>
        snd (manage_bookings c a st) =
          st\<lparr>bikes := set_availability (booked_bike_id (bookings st ! i)) True (bikes st),
             bookings := (bookings st)[i := (bookings st ! i)\<lparr>status := ''Rejected''\<rparr>]\<rparr>)))"
proof (cases "\<exists>n. c = Some n \<and> 1 \<le> n \<and> n \<le> int (length (pending_positions (bookings st)))
    \<and> (a = ''1'' \<or> a = ''2'')")
  case True
  then obtain n where n: "c = Some n" "1 \<le> n"
    "n \<le> int (length (pending_positions (bookings st)))" "a = ''1'' \<or> a = ''2''"
    by blast
  let ?i = "pending_positions (bookings st) ! nat (n - 1)"
  from pending_positions_nth [OF n(2,3)]
  have i: "?i < length (bookings st)" "status (bookings st ! ?i) = ''Pending''"
    by simp_all
  from n have ne: "pending_positions (bookings st) \<noteq> []" by auto
  from n(4) show ?thesis
  proof
    assume "a = ''1''"
    with n ne i show ?thesis
      by (intro disjI2 exI [of _ ?i]) (simp add: manage_bookings_def Let_def)
  next
    assume "a = ''2''"
    with n ne i show ?thesis
      by (intro disjI2 exI [of _ ?i]) (simp add: manage_bookings_def Let_def save_all_data_def)
  qed
next
  case False
  then show ?thesis
    by (auto simp: manage_bookings_def Let_def split: option.splits)
qed

lemma add_bike_bookings: "bookings (snd (add_bike d n c p r l st)) = bookings st"
  by (simp add: add_bike_def Let_def split: option.splits)

lemma update_bike_bookings: "bookings (snd (update_bike b n c p r v l st)) = bookings st"
  by (simp add: update_bike_def Let_def split: option.splits)

lemma delete_bike_bookings: "bookings (snd (delete_bike b y st)) = bookings st"
  by (simp add: delete_bike_def Let_def split: option.splits)

lemma run_bookings_cases:
  "bookings (run x st) = bookings st \<or>
   (\<exists>k. bookings (run x st) = bookings st @ [k] \<and> status k = ''Pending'') \<or>
   (\<exists>i s. bookings (run x st) = (bookings st)[i := (bookings st ! i)\<lparr>status := s\<rparr>] \<and>
      i < length (bookings st) \<and> legal_transition (status (bookings st ! i)) s)"
proof (cases x)
  case (Book_bike u p f t now c y d)
  from book_bike_cases [of u p f t now c y d st] Book_bike show ?thesis
    by auto
next
  case (Make_payment u b c)
  from make_payment_cases [of u b c st] show ?thesis
  proof
    assume "snd (make_payment u b c st) = st"
    with Make_payment show ?thesis by simp
  next
    assume "\<exists>i. i < length (bookings st) \<and> status (bookings st ! i) = ''Approved'' \<and>
        customer_username (bookings st ! i) = u \<and>
        booking_id (bookings st ! i) = strip b \<and>
        fst (make_payment u b c st) = Payment_successful \<and>
        snd (make_payment u b c st) =
          st\<lparr>bikes := set_availability (booked_bike_id (bookings st ! i)) False (bikes st),
             bookings := (bookings st)[i := (bookings st ! i)\<lparr>status := ''Completed''\<rparr>]\<rparr>"
    then obtain i where "i < length (bookings st)" "status (bookings st ! i) = ''Approved''"
      "bookings (snd (make_payment u b c st)) =
         (bookings st)[i := (bookings st ! i)\<lparr>status := ''Completed''\<rparr>]"
      by auto
    with Make_payment show ?thesis
      by (intro disjI2 exI [of _ i] exI [of _ "''Completed''"]) (simp add: legal_transition_def)
  qed
next
  case (Add_bike d n c p r l)
  then show ?thesis by (simp add: add_bike_bookings)
next
  case (Update_bike b n c p r v l)
  then show ?thesis by (simp add: update_bike_bookings)
next
  case (Delete_bike b y)
  then show ?thesis by (simp add: delete_bike_bookings)
next
  case (Manage_bookings c a)
  from manage_bookings_cases [of c a st] show ?thesis
  proof
    assume "snd (manage_bookings c a st) = st"
    with Manage_bookings show ?thesis by simp
  next
    assume "\<exists>i. i < length (bookings st) \<and> status (bookings st ! i) = ''Pending'' \<and>
      ((fst (manage_bookings c a st) = Booking_approved (booking_id (bookings st ! i)) \<and>
        snd (manage_bookings c a st) =
          st\<lparr>bookings := (bookings st)[i := (bookings st ! i)\<lparr>status := ''Approved''\<rparr>]\<rparr>) \<or>
       (fst (manage_bookings c a st) = Booking_rejected (booking_id (bookings st ! i)) \<and>
        snd (manage_bookings c a st) =
          st\<lparr>bikes := set_availability (booked_bike_id (bookings st ! i)) True (bikes st),
             bookings := (bookings st)[i := (bookings st ! i)\<lparr>status := ''Rejected''\<rparr>]\<rparr>))"
    then obtain i where i: "i < length (bookings st)" "status (bookings st ! i) = ''Pending''"
      and "bookings (snd (manage_bookings c a st)) =
             (bookings st)[i := (bookings st ! i)\<lparr>status := ''Approved''\<rparr>] \<or>
           bookings (snd (manage_bookings c a st)) =
             (bookings st)[i := (bookings st ! i)\<lparr>status := ''Rejected''\<rparr>]"
      by auto
    from this(3) show ?thesis
    proof
      assume "bookings (snd (manage_bookings c a st)) =
             (bookings st)[i := (bookings st ! i)\<lparr>status := ''Approved''\<rparr>]"
      with i Manage_bookings show ?thesis
        by (intro disjI2 exI [of _ i] exI [of _ "''Approved''"]) (simp add: legal_transition_def)
    next
      assume "bookings (snd (manage_bookings c a st)) =
             (bookings st)[i := (bookings st ! i)\<lparr>status := ''Rejected''\<rparr>]"
      with i Manage_bookings show ?thesis
        by (intro disjI2 exI [of _ i] exI [of _ "''Rejected''"]) (simp add: legal_transition_def)
    qed
  qed
qed

lemma run_status_step:
  assumes "i < length (bookings st)"
  shows "i < length (bookings (run x st)) \<and>
     (status (bookings (run x st) ! i) = status (bookings st ! i) \<or>
      legal_transition (status (bookings st ! i)) (status (bookings (run x st) ! i)))"
  using run_bookings_cases [of x st] assms
  by (auto simp: nth_append nth_list_update)


lemma run_all_terminal:
  assumes "i < length (bookings st)"
    and "status (bookings st ! i) = ''Rejected'' \<or> status (bookings st ! i) = ''Completed''"
  shows "i < length (bookings (run_all xs st)) \<and>
     status (bookings (run_all xs st) ! i) = status (bookings st ! i)"
  using assms
proof (induction xs arbitrary: st)
  case Nil
  then show ?case by simp
next
  case (Cons x xs)
  from run_status_step [where x = x, OF Cons.prems(1)] Cons.prems(2)
  have step: "i < length (bookings (run x st))"
    "status (bookings (run x st) ! i) = status (bookings st ! i)"
    by (auto simp: legal_transition_def)
  with Cons.prems(2) have "status (bookings (run x st) ! i) = ''Rejected'' \<or>
      status (bookings (run x st) ! i) = ''Completed''"
    by simp
  from Cons.IH [OF step(1) this] step(2) show ?case by simp
qed


lemma manage_bookings_status_change:
  assumes "i < length (bookings st)"
    and "status (bookings (snd (manage_bookings c a st)) ! i) \<noteq> status (bookings st ! i)"
  shows "status (bookings st ! i) = ''Pending'' \<and>
     (status (bookings (snd (manage_bookings c a st)) ! i) = ''Approved'' \<or>
      status (bookings (snd (manage_bookings c a st)) ! i) = ''Rejected'')"
  using manage_bookings_cases [of c a st] assms
  by (auto simp: nth_list_update split: if_splits)

lemma make_payment_status_change:
  assumes "i < length (bookings st)"
    and "status (bookings (snd (make_payment u b ch st)) ! i) \<noteq> status (bookings st ! i)"
  shows "status (bookings st ! i) = ''Approved'' \<and>
     status (bookings (snd (make_payment u b ch st)) ! i) = ''Completed''"
  using make_payment_cases [of u b ch st] assms
  by (auto simp: nth_list_update split: if_splits)

lemma run_new_bookings_pending:
  assumes "length (bookings st) \<le> j" and "j < length (bookings (run x st))"
  shows "status (bookings (run x st) ! j) = ''Pending''"
  using run_bookings_cases [of x st] assms
  by (auto simp: nth_append)

section \<open>Evaluation on concrete inputs\<close>

lemmas store_eval = example_store_def example_bookings_def sample_bikes_def
  pending_positions_def save_all_data_def save_booking_def Let_def strip_def is_space_def
  lower_def lower_char_def

lemmas date_eval = strptime_ymd_def read_year_def read_month_def read_day_def digit_of_def
  days_in_month_def is_leap_def dt_less_def dt_key_def timedelta_days_def microseconds_of_def
  toordinal_def days_before_year_def days_before_month_def

section \<open>The life cycle of a booking\<close>

text \<open>
  C1. Take any booking of the store, at position \<open>i\<close>. Whatever operation runs, its
  status is left as it was or moves along one of Pending to Approved, Pending to
  Rejected, Approved to Completed. The approve/reject operation changes a status
  only from Pending, and only to Approved or Rejected; payment changes a status only
  from Approved, and only to Completed. A booking that is Rejected or Completed keeps
  its status through every run of operations. A booking added by an operation starts
  as Pending.
\<close>

theorem status_transitions:
  assumes "i < length (bookings st)"
  shows "(status (bookings (run x st) ! i) = status (bookings st ! i) \<or>
      legal_transition (status (bookings st ! i)) (status (bookings (run x st) ! i))) \<and>
    (status (bookings (snd (manage_bookings c a st)) ! i) \<noteq> status (bookings st ! i) \<longrightarrow>
      status (bookings st ! i) = ''Pending'' \<and>
      (status (bookings (snd (manage_bookings c a st)) ! i) = ''Approved'' \<or>
       status (bookings (snd (manage_bookings c a st)) ! i) = ''Rejected'')) \<and>
    (status (bookings (snd (make_payment u b ch st)) ! i) \<noteq> status (bookings st ! i) \<longrightarrow>
      status (bookings st ! i) = ''Approved'' \<and>
      status (bookings (snd (make_payment u b ch st)) ! i) = ''Completed'') \<and>
    (status (bookings st ! i) = ''Rejected'' \<or> status (bookings st ! i) = ''Completed'' \<longrightarrow>
      i < length (bookings (run_all xs st)) \<and>
      status (bookings (run_all xs st) ! i) = status (bookings st ! i)) \<and>
    (\<forall>j. length (bookings st) \<le> j \<and> j < length (bookings (run x st)) \<longrightarrow>
      status (bookings (run x st) ! j) = ''Pending'')"
proof (intro conjI impI allI)
  show "status (bookings (run x st) ! i) = status (bookings st ! i) \<or>
      legal_transition (status (bookings st ! i)) (status (bookings (run x st) ! i))"
    using run_status_step [OF assms] by simp
next
  assume "status (bookings (snd (manage_bookings c a st)) ! i) \<noteq> status (bookings st ! i)"
  from manage_bookings_status_change [OF assms this]
  show "status (bookings st ! i) = ''Pending''"
    and "status (bookings (snd (manage_bookings c a st)) ! i) = ''Approved'' \<or>
       status (bookings (snd (manage_bookings c a st)) ! i) = ''Rejected''"
    by simp_all
next
  assume "status (bookings (snd (make_payment u b ch st)) ! i) \<noteq> status (bookings st ! i)"
  from make_payment_status_change [OF assms this]
  show "status (bookings st ! i) = ''Approved''"
    and "status (bookings (snd (make_payment u b ch st)) ! i) = ''Completed''"
    by simp_all
next
  assume "status (bookings st ! i) = ''Rejected'' \<or> status (bookings st ! i) = ''Completed''"
  from run_all_terminal [OF assms this]
  show "i < length (bookings (run_all xs st))"
    and "status (bookings (run_all xs st) ! i) = status (bookings st ! i)"
    by simp_all
next
  fix j
  assume "length (bookings st) \<le> j \<and> j < length (bookings (run x st))"
  then show "status (bookings (run x st) ! j) = ''Pending''"
    using run_new_bookings_pending by simp
qed

theorem status_transitions_witness:
  "(0::nat) < length (bookings example_store) \<and>
   status (bookings example_store ! 0) = ''Pending'' \<and>
   status (bookings (snd (manage_bookings (Some 1) ''1'' example_store)) ! 0) = ''Approved'' \<and>
   status (bookings example_store ! 1) = ''Approved'' \<and>
   status (bookings (snd (make_payment ''bob'' ''BKG000002'' ''1'' example_store)) ! 1)
     = ''Completed'' \<and>
   status (bookings example_store ! 2) = ''Completed'' \<and>
   status (bookings (run_all [Make_payment ''alice'' ''BKG000003'' ''1'',
     Manage_bookings (Some 1) ''2''] example_store) ! 2) = ''Completed'' \<and>
   length (bookings example_store) = 5 \<and>
   status (bookings (run (Book_bike ''alice'' ''downtown'' ''2024-01-01'' ''2024-01-03''
     \<lparr>year = 2023, month = 12, day = 31, hour = 10, minute = 0, second = 0, microsecond = 0\<rparr>
     (Some 1) ''yes'' ''000006'') example_store) ! 5) = ''Pending''"
proof -
  let ?book = "Book_bike ''alice'' ''downtown'' ''2024-01-01'' ''2024-01-03''
     \<lparr>year = 2023, month = 12, day = 31, hour = 10, minute = 0, second = 0, microsecond = 0\<rparr>
     (Some 1) ''yes'' ''000006''"
  let ?ops = "[Make_payment ''alice'' ''BKG000003'' ''1'', Manage_bookings (Some 1) ''2'']"
  have len: "length (bookings example_store) = 5"
    by (simp add: store_eval)
  have l0: "(0::nat) < length (bookings example_store)"
    and l1: "(1::nat) < length (bookings example_store)"
    and l2: "(2::nat) < length (bookings example_store)"
    by (simp_all add: len)
  have c0: "status (bookings (snd (manage_bookings (Some 1) ''1'' example_store)) ! 0)
      \<noteq> status (bookings example_store ! 0)"
    by (simp add: manage_bookings_def store_eval)
  have a0: "status (bookings (snd (manage_bookings (Some 1) ''1'' example_store)) ! 0)
      \<noteq> ''Rejected''"
    by (simp add: manage_bookings_def store_eval)
  have c1: "status (bookings (snd (make_payment ''bob'' ''BKG000002'' ''1'' example_store)) ! 1)
      \<noteq> status (bookings example_store ! 1)"
    by (simp add: make_payment_def store_eval)
  have c2: "status (bookings example_store ! 2) = ''Completed''"
    by (simp add: store_eval)
  have c3: "length (bookings example_store) \<le> 5 \<and>
      5 < length (bookings (run ?book example_store))"
    by (simp add: book_bike_def store_eval date_eval)
  from status_transitions [OF l0, of ?book "Some 1" "''1''" "''bob''" "''BKG000002''" "''1''" ?ops]
    c0 a0
  have r0: "status (bookings example_store ! 0) = ''Pending''"
    "status (bookings (snd (manage_bookings (Some 1) ''1'' example_store)) ! 0) = ''Approved''"
    by simp_all
  from status_transitions [OF l1, of ?book "Some 1" "''1''" "''bob''" "''BKG000002''" "''1''" ?ops]
    c1
  have r1: "status (bookings example_store ! 1) = ''Approved''"
    "status (bookings (snd (make_payment ''bob'' ''BKG000002'' ''1'' example_store)) ! 1)
       = ''Completed''"
    by simp_all
  from status_transitions [OF l2, of ?book "Some 1" "''1''" "''bob''" "''BKG000002''" "''1''" ?ops]
    c2 c3
  have r2: "status (bookings (run_all ?ops example_store) ! 2) = ''Completed''"
    "status (bookings (run ?book example_store) ! 5) = ''Pending''"
    by simp_all
  from l0 len r0 r1 c2 r2 show ?thesis
    by simp
qed

lemma manage_bookings_approvedD:
  assumes "manage_bookings c a st = (Booking_approved bkg, st')"
  shows "\<exists>n. c = Some n \<and> 1 \<le> n \<and> n \<le> int (length (pending_positions (bookings st))) \<and>
     a = ''1'' \<and>
     bkg = booking_id (bookings st ! (pending_positions (bookings st) ! nat (n - 1))) \<and>
     st' = st\<lparr>bookings := (bookings st)[pending_positions (bookings st) ! nat (n - 1) :=
        (bookings st ! (pending_positions (bookings st) ! nat (n - 1)))
          \<lparr>status := ''Approved''\<rparr>]\<rparr>"
  using assms
  by (simp add: manage_bookings_def Let_def save_all_data_def split: option.splits if_splits)

lemma manage_bookings_rejectedD:
  assumes "manage_bookings c a st = (Booking_rejected bkg, st')"
  shows "\<exists>n. c = Some n \<and> 1 \<le> n \<and> n \<le> int (length (pending_positions (bookings st))) \<and>
     a = ''2'' \<and>
     bkg = booking_id (bookings st ! (pending_positions (bookings st) ! nat (n - 1))) \<and>
     st' = st\<lparr>bikes := set_availability
          (booked_bike_id (bookings st ! (pending_positions (bookings st) ! nat (n - 1))))
          True (bikes st),
        bookings := (bookings st)[pending_positions (bookings st) ! nat (n - 1) :=
        (bookings st ! (pending_positions (bookings st) ! nat (n - 1)))
          \<lparr>status := ''Rejected''\<rparr>]\<rparr>"
  using assms
  by (simp add: manage_bookings_def Let_def save_all_data_def split: option.splits if_splits)

lemma make_payment_successfulD:
  assumes "make_payment u b ch st = (Payment_successful, st')"
  shows "\<exists>i. first_index (\<lambda>k. booking_id k = strip b \<and> customer_username k = u) (bookings st)
       = Some i \<and>
     status (bookings st ! i) = ''Approved'' \<and>
     st' = st\<lparr>bikes := set_availability (booked_bike_id (bookings st ! i)) False (bikes st),
        bookings := (bookings st)[i := (bookings st ! i)\<lparr>status := ''Completed''\<rparr>]\<rparr>"
  using assms
  by (simp add: make_payment_def Let_def save_all_data_def split: option.splits if_splits)

section \<open>Approval\<close>

text \<open>
  C10. When the admin approves a booking, the booking chosen was Pending and only
  its status field changes, to Approved: every other booking is as before, the
  number of bookings is the same, and the bikes collection of the store is the one
  it was (so the availability flag of the referenced bike keeps its value).
\<close>

theorem approve_frame:
  assumes "manage_bookings c a st = (Booking_approved bkg, st')"
  shows "bikes st' = bikes st \<and> length (bookings st') = length (bookings st) \<and>
    (\<exists>i<length (bookings st).
       status (bookings st ! i) = ''Pending'' \<and> booking_id (bookings st ! i) = bkg \<and>
       bookings st' ! i = (bookings st ! i)\<lparr>status := ''Approved''\<rparr> \<and>
       (\<forall>j<length (bookings st). j \<noteq> i \<longrightarrow> bookings st' ! j = bookings st ! j) \<and>
       find (\<lambda>b. bike_id b = booked_bike_id (bookings st ! i)) (bikes st') =
         find (\<lambda>b. bike_id b = booked_bike_id (bookings st ! i)) (bikes st))"
proof -
  from manage_bookings_approvedD [OF assms] obtain n where n: "1 \<le> n"
    "n \<le> int (length (pending_positions (bookings st)))"
    and bkg: "bkg = booking_id (bookings st ! (pending_positions (bookings st) ! nat (n - 1)))"
    and st': "st' = st\<lparr>bookings := (bookings st)[pending_positions (bookings st) ! nat (n - 1) :=
        (bookings st ! (pending_positions (bookings st) ! nat (n - 1)))
          \<lparr>status := ''Approved''\<rparr>]\<rparr>"
    by blast
  let ?i = "pending_positions (bookings st) ! nat (n - 1)"
  from pending_positions_nth [OF n]
  have i: "?i < length (bookings st)" "status (bookings st ! ?i) = ''Pending''"
    by simp_all
  have "bikes st' = bikes st" "length (bookings st') = length (bookings st)"
    by (simp_all add: st')
  moreover have "\<exists>i<length (bookings st).
       status (bookings st ! i) = ''Pending'' \<and> booking_id (bookings st ! i) = bkg \<and>
       bookings st' ! i = (bookings st ! i)\<lparr>status := ''Approved''\<rparr> \<and>
       (\<forall>j<length (bookings st). j \<noteq> i \<longrightarrow> bookings st' ! j = bookings st ! j) \<and>
       find (\<lambda>b. bike_id b = booked_bike_id (bookings st ! i)) (bikes st') =
         find (\<lambda>b. bike_id b = booked_bike_id (bookings st ! i)) (bikes st)"
    using i bkg by (intro exI [of _ ?i]) (simp add: st')
  ultimately show ?thesis by simp
qed

theorem approve_frame_witness:
  "manage_bookings (Some 2) ''1'' example_store =
     (Booking_approved ''BKG000005'',
      example_store\<lparr>bookings := (bookings example_store)
        [4 := (bookings example_store ! 4)\<lparr>status := ''Approved''\<rparr>]\<rparr>) \<and>
   bikes (snd (manage_bookings (Some 2) ''1'' example_store)) = bikes example_store \<and>
   length (bookings (snd (manage_bookings (Some 2) ''1'' example_store))) = 5"
proof -
  have e: "manage_bookings (Some 2) ''1'' example_store =
     (Booking_approved ''BKG000005'',
      example_store\<lparr>bookings := (bookings example_store)
        [4 := (bookings example_store ! 4)\<lparr>status := ''Approved''\<rparr>]\<rparr>)"
    by (simp add: manage_bookings_def store_eval)
  have len: "length (bookings example_store) = 5"
    by (simp add: store_eval)
  from approve_frame [OF e] len show ?thesis
    by (simp add: e)
qed

section \<open>Rejection, payment and the availability of the bike\<close>

text \<open>
  C2. Rejecting a Pending booking leaves a store in which the booking is Rejected
  and the bike it refers to (the first bike of the collection with that identifier,
  when there is one) is available; paying an Approved booking leaves a store in
  which the booking is Completed and that bike is not available. In both cases the
  other bikes are untouched, and the store that is left holds the new bikes and
  the new bookings together.
\<close>

theorem reject_and_payment_availability:
  "(manage_bookings c a st = (Booking_rejected bkg, st') \<longrightarrow>
     (\<exists>i<length (bookings st).
        status (bookings st ! i) = ''Pending'' \<and> booking_id (bookings st ! i) = bkg \<and>
        bookings st' = (bookings st)[i := (bookings st ! i)\<lparr>status := ''Rejected''\<rparr>] \<and>
        bikes st' =
          (case first_index (\<lambda>b. bike_id b = booked_bike_id (bookings st ! i)) (bikes st) of
             None \<Rightarrow> bikes st
           | Some j \<Rightarrow> (bikes st)[j := (bikes st ! j)\<lparr>available := True\<rparr>]) \<and>
        find (\<lambda>b. bike_id b = booked_bike_id (bookings st ! i)) (bikes st') =
          map_option (\<lambda>b. b\<lparr>available := True\<rparr>)
            (find (\<lambda>b. bike_id b = booked_bike_id (bookings st ! i)) (bikes st)))) \<and>
   (make_payment u b ch st = (Payment_successful, st'') \<longrightarrow>
     (\<exists>i<length (bookings st).
        status (bookings st ! i) = ''Approved'' \<and> booking_id (bookings st ! i) = strip b \<and>
        customer_username (bookings st ! i) = u \<and>
        bookings st'' = (bookings st)[i := (bookings st ! i)\<lparr>status := ''Completed''\<rparr>] \<and>
        bikes st'' =
          (case first_index (\<lambda>b. bike_id b = booked_bike_id (bookings st ! i)) (bikes st) of
             None \<Rightarrow> bikes st
           | Some j \<Rightarrow> (bikes st)[j := (bikes st ! j)\<lparr>available := False\<rparr>]) \<and>
        find (\<lambda>b. bike_id b = booked_bike_id (bookings st ! i)) (bikes st'') =
          map_option (\<lambda>b. b\<lparr>available := False\<rparr>)
            (find (\<lambda>b. bike_id b = booked_bike_id (bookings st ! i)) (bikes st))))"
proof (intro conjI impI)
  assume r: "manage_bookings c a st = (Booking_rejected bkg, st')"
  from manage_bookings_rejectedD [OF r] obtain n where n: "1 \<le> n"
    "n \<le> int (length (pending_positions (bookings st)))"
    and bkg: "bkg = booking_id (bookings st ! (pending_positions (bookings st) ! nat (n - 1)))"
    and st': "st' = st\<lparr>bikes := set_availability
          (booked_bike_id (bookings st ! (pending_positions (bookings st) ! nat (n - 1))))
          True (bikes st),
        bookings := (bookings st)[pending_positions (bookings st) ! nat (n - 1) :=
        (bookings st ! (pending_positions (bookings st) ! nat (n - 1)))
          \<lparr>status := ''Rejected''\<rparr>]\<rparr>"
    by blast
  let ?i = "pending_positions (bookings st) ! nat (n - 1)"
  from pending_positions_nth [OF n]
  have i: "?i < length (bookings st)" "status (bookings st ! ?i) = ''Pending''"
    by simp_all
  have bs: "bikes st' = set_availability (booked_bike_id (bookings st ! ?i)) True (bikes st)"
    and ks: "bookings st' = (bookings st)[?i := (bookings st ! ?i)\<lparr>status := ''Rejected''\<rparr>]"
    by (simp_all add: st')
  show "\<exists>i<length (bookings st).
        status (bookings st ! i) = ''Pending'' \<and> booking_id (bookings st ! i) = bkg \<and>
        bookings st' = (bookings st)[i := (bookings st ! i)\<lparr>status := ''Rejected''\<rparr>] \<and>
        bikes st' =
          (case first_index (\<lambda>b. bike_id b = booked_bike_id (bookings st ! i)) (bikes st) of
             None \<Rightarrow> bikes st
           | Some j \<Rightarrow> (bikes st)[j := (bikes st ! j)\<lparr>available := True\<rparr>]) \<and>
        find (\<lambda>b. bike_id b = booked_bike_id (bookings st ! i)) (bikes st') =
          map_option (\<lambda>b. b\<lparr>available := True\<rparr>)
            (find (\<lambda>b. bike_id b = booked_bike_id (bookings st ! i)) (bikes st))"
    using i bkg ks
    by (intro exI [of _ ?i])
      (simp add: bs find_set_availability set_availability_first_index [symmetric])
next
  assume p: "make_payment u b ch st = (Payment_successful, st'')"
  from make_payment_successfulD [OF p] obtain i where
    fi: "first_index (\<lambda>k. booking_id k = strip b \<and> customer_username k = u) (bookings st)
       = Some i"
    and ap: "status (bookings st ! i) = ''Approved''"
    and st'': "st'' = st\<lparr>bikes := set_availability (booked_bike_id (bookings st ! i)) False
         (bikes st),
        bookings := (bookings st)[i := (bookings st ! i)\<lparr>status := ''Completed''\<rparr>]\<rparr>"
    by blast
  from first_index_SomeD [OF fi]
  have i: "i < length (bookings st)" "booking_id (bookings st ! i) = strip b"
    "customer_username (bookings st ! i) = u"
    by simp_all
  have bs: "bikes st'' = set_availability (booked_bike_id (bookings st ! i)) False (bikes st)"
    and ks: "bookings st'' = (bookings st)[i := (bookings st ! i)\<lparr>status := ''Completed''\<rparr>]"
    by (simp_all add: st'')
  show "\<exists>i<length (bookings st).
        status (bookings st ! i) = ''Approved'' \<and> booking_id (bookings st ! i) = strip b \<and>
        customer_username (bookings st ! i) = u \<and>
        bookings st'' = (bookings st)[i := (bookings st ! i)\<lparr>status := ''Completed''\<rparr>] \<and>
        bikes st'' =
          (case first_index (\<lambda>b. bike_id b = booked_bike_id (bookings st ! i)) (bikes st) of
             None \<Rightarrow> bikes st
           | Some j \<Rightarrow> (bikes st)[j := (bikes st ! j)\<lparr>available := False\<rparr>]) \<and>
        find (\<lambda>b. bike_id b = booked_bike_id (bookings st ! i)) (bikes st'') =
          map_option (\<lambda>b. b\<lparr>available := False\<rparr>)
            (find (\<lambda>b. bike_id b = booked_bike_id (bookings st ! i)) (bikes st))"
    using i ap ks
    by (intro exI [of _ i])
      (simp add: bs find_set_availability set_availability_first_index [symmetric])
qed

theorem reject_and_payment_availability_witness:
  "manage_bookings (Some 2) ''2'' example_store =
     (Booking_rejected ''BKG000005'',
      example_store\<lparr>bikes := set_availability ''BIKE0003'' True (bikes example_store),
        bookings := (bookings example_store)
          [4 := (bookings example_store ! 4)\<lparr>status := ''Rejected''\<rparr>]\<rparr>) \<and>
   map_option available (find (\<lambda>b. bike_id b = ''BIKE0003'') (bikes example_store))
     = Some False \<and>
   map_option available (find (\<lambda>b. bike_id b = ''BIKE0003'')
     (bikes (snd (manage_bookings (Some 2) ''2'' example_store)))) = Some True \<and>
   make_payment ''bob'' '' BKG000002 '' ''3'' example_store =
     (Payment_successful,
      example_store\<lparr>bikes := set_availability ''BIKE0002'' False (bikes example_store),
        bookings := (bookings example_store)
          [1 := (bookings example_store ! 1)\<lparr>status := ''Completed''\<rparr>]\<rparr>) \<and>
   map_option available (find (\<lambda>b. bike_id b = ''BIKE0002'') (bikes example_store))
     = Some True \<and>
   map_option available (find (\<lambda>b. bike_id b = ''BIKE0002'')
     (bikes (snd (make_payment ''bob'' '' BKG000002 '' ''3'' example_store)))) = Some False"
proof -
  have r: "manage_bookings (Some 2) ''2'' example_store =
     (Booking_rejected ''BKG000005'',
      example_store\<lparr>bikes := set_availability ''BIKE0003'' True (bikes example_store),
        bookings := (bookings example_store)
          [4 := (bookings example_store ! 4)\<lparr>status := ''Rejected''\<rparr>]\<rparr>)"
    by (simp add: manage_bookings_def store_eval)
  have p: "make_payment ''bob'' '' BKG000002 '' ''3'' example_store =
     (Payment_successful,
      example_store\<lparr>bikes := set_availability ''BIKE0002'' False (bikes example_store),
        bookings := (bookings example_store)
          [1 := (bookings example_store ! 1)\<lparr>status := ''Completed''\<rparr>]\<rparr>)"
    by (simp add: make_payment_def store_eval)
  have b3: "map_option available (find (\<lambda>b. bike_id b = ''BIKE0003'') (bikes example_store))
     = Some False"
    by (simp add: store_eval)
  have b2: "map_option available (find (\<lambda>b. bike_id b = ''BIKE0002'') (bikes example_store))
     = Some True"
    by (simp add: store_eval)
  have a3: "map_option available (find (\<lambda>b. bike_id b = ''BIKE0003'')
     (bikes (snd (manage_bookings (Some 2) ''2'' example_store)))) = Some True"
    by (simp add: r) (simp add: store_eval)
  have a2: "map_option available (find (\<lambda>b. bike_id b = ''BIKE0002'')
     (bikes (snd (make_payment ''bob'' '' BKG000002 '' ''3'' example_store)))) = Some False"
    by (simp add: p) (simp add: store_eval)
  from reject_and_payment_availability [of "Some 2" "''2''" example_store "''BKG000005''"
      "snd (manage_bookings (Some 2) ''2'' example_store)" "''bob''" "'' BKG000002 ''" "''3''"
      "snd (make_payment ''bob'' '' BKG000002 '' ''3'' example_store)"]
    r p b3 b2 a3 a2
  show ?thesis by simp
qed

section \<open>Ownership of bookings\<close>

lemma make_payment_foreign:
  assumes "i < length (bookings st)" and "customer_username (bookings st ! i) \<noteq> u"
  shows "bookings (snd (make_payment u b ch st)) ! i = bookings st ! i"
  using make_payment_cases [of u b ch st] assms
  by (auto simp: nth_list_update)

text \<open>
  C8. A customer looks a booking up by its identifier, to view it or to pay it.
  When every booking with that identifier belongs to somebody else, the view finds
  nothing and the payment reports that no booking was found and leaves the store
  as it is. A booking that the view does return carries the identifier asked for
  and the customer's own username, and a payment never changes a booking of
  another customer.
\<close>

theorem customer_sees_own_bookings_only:
  "((\<forall>k\<in>set (bookings st). booking_id k = strip b \<longrightarrow> customer_username k \<noteq> u) \<longrightarrow>
      view_booking_status u b st = None \<and>
      make_payment u b ch st = (Payment_not_found, st)) \<and>
   (view_booking_status u b st = Some k' \<longrightarrow>
      k' \<in> set (bookings st) \<and> booking_id k' = strip b \<and> customer_username k' = u) \<and>
   (i < length (bookings st) \<and> customer_username (bookings st ! i) \<noteq> u \<longrightarrow>
      bookings (snd (make_payment u b ch st)) ! i = bookings st ! i)"
proof (intro conjI impI)
  assume other: "\<forall>k\<in>set (bookings st). booking_id k = strip b \<longrightarrow> customer_username k \<noteq> u"
  then have none: "first_index (\<lambda>k. booking_id k = strip b \<and> customer_username k = u)
      (bookings st) = None"
    by (auto simp: first_index_None_iff)
  then show "view_booking_status u b st = None"
    by (simp add: view_booking_status_def find_first_index)
  from none show "make_payment u b ch st = (Payment_not_found, st)"
    by (simp add: make_payment_def)
next
  assume v: "view_booking_status u b st = Some k'"
  then have f: "find (\<lambda>k. booking_id k = strip b \<and> customer_username k = u) (bookings st)
      = Some k'"
    by (simp add: view_booking_status_def)
  then show "k' \<in> set (bookings st)"
    by (auto simp: find_Some_iff)
  from f show "booking_id k' = strip b" and "customer_username k' = u"
    by (auto simp: find_Some_iff)
next
  assume "i < length (bookings st) \<and> customer_username (bookings st ! i) \<noteq> u"
  then show "bookings (snd (make_payment u b ch st)) ! i = bookings st ! i"
    using make_payment_foreign by simp
qed

theorem customer_sees_own_bookings_only_witness:
  "view_booking_status ''alice'' ''BKG000002'' example_store = None \<and>
   make_payment ''alice'' ''BKG000002'' ''1'' example_store = (Payment_not_found, example_store) \<and>
   view_booking_status ''bob'' ''BKG000002'' example_store = Some (bookings example_store ! 1) \<and>
   customer_username (bookings example_store ! 1) = ''bob'' \<and>
   bookings (snd (make_payment ''bob'' ''BKG000002'' ''1'' example_store)) ! 0
     = bookings example_store ! 0"
proof -
  have h1: "\<forall>k\<in>set (bookings example_store).
      booking_id k = strip ''BKG000002'' \<longrightarrow> customer_username k \<noteq> ''alice''"
    by (simp add: store_eval)
  have h2: "view_booking_status ''bob'' ''BKG000002'' example_store
      = Some (bookings example_store ! 1)"
    by (simp add: view_booking_status_def store_eval)
  have h3: "0 < length (bookings example_store) \<and>
      customer_username (bookings example_store ! 0) \<noteq> ''bob''"
    by (simp add: store_eval)
  from customer_sees_own_bookings_only [of example_store "''BKG000002''" "''alice''" "''1''"
      "bookings example_store ! 1" 0] h1
  have r1: "view_booking_status ''alice'' ''BKG000002'' example_store = None"
    "make_payment ''alice'' ''BKG000002'' ''1'' example_store = (Payment_not_found, example_store)"
    by simp_all
  from customer_sees_own_bookings_only [of example_store "''BKG000002''" "''bob''" "''1''"
      "bookings example_store ! 1" 0] h2 h3
  have r2: "customer_username (bookings example_store ! 1) = ''bob''"
    "bookings (snd (make_payment ''bob'' ''BKG000002'' ''1'' example_store)) ! 0
       = bookings example_store ! 0"
    by simp_all
  from r1 h2 r2 show ?thesis by simp
qed

section \<open>Deleting a bike\<close>

lemma delete_bike_found_confirmed:
  assumes "\<exists>x\<in>set (bikes st). bike_id x = strip b" and "lower y = ''yes''"
  shows "delete_bike b y st =
     (if filter (\<lambda>k. booked_bike_id k = strip b \<and>
            (status k = ''Pending'' \<or> status k = ''Approved'')) (bookings st) \<noteq> []
      then (Delete_blocked (length (filter (\<lambda>k. booked_bike_id k = strip b \<and>
            (status k = ''Pending'' \<or> status k = ''Approved'')) (bookings st))), st)
      else (Bike_deleted, st\<lparr>bikes := filter (\<lambda>x. bike_id x \<noteq> strip b) (bikes st)\<rparr>))"
proof -
  from assms(1) have "first_index (\<lambda>x. bike_id x = strip b) (bikes st) \<noteq> None"
    by (simp add: first_index_None_iff)
  then obtain i where "first_index (\<lambda>x. bike_id x = strip b) (bikes st) = Some i"
    by auto
  with assms(2) show ?thesis
    by (simp add: delete_bike_def Let_def)
qed

text \<open>
  C4, as the code has it. The admin asks to delete a bike that exists and confirms.
  The deletion is blocked exactly when some booking that is Pending or Approved
  refers to the identifier; the report then carries the number of those bookings,
  which is positive, and the store is unchanged. When no such booking exists, in
  particular when every booking referring to the identifier is Completed or
  Rejected, the deletion succeeds and removes every bike that carries the
  identifier: the bikes left are those with another identifier, in their order, and
  the bookings are as before. Where the identifiers of the collection are pairwise
  distinct, this removes the one bike and nothing else.
\<close>

theorem delete_bike_blocked_iff_active:
  assumes "\<exists>x\<in>set (bikes st). bike_id x = strip b" and "lower y = ''yes''"
  shows "((\<exists>n. fst (delete_bike b y st) = Delete_blocked n) \<longleftrightarrow>
       (\<exists>k\<in>set (bookings st). booked_bike_id k = strip b \<and>
          (status k = ''Pending'' \<or> status k = ''Approved''))) \<and>
    ((\<exists>k\<in>set (bookings st). booked_bike_id k = strip b \<and>
          (status k = ''Pending'' \<or> status k = ''Approved'')) \<longrightarrow>
       delete_bike b y st =
         (Delete_blocked (length (filter (\<lambda>k. booked_bike_id k = strip b \<and>
            (status k = ''Pending'' \<or> status k = ''Approved'')) (bookings st))), st) \<and>
       0 < length (filter (\<lambda>k. booked_bike_id k = strip b \<and>
            (status k = ''Pending'' \<or> status k = ''Approved'')) (bookings st))) \<and>
    (\<not> (\<exists>k\<in>set (bookings st). booked_bike_id k = strip b \<and>
          (status k = ''Pending'' \<or> status k = ''Approved'')) \<longrightarrow>
       delete_bike b y st =
         (Bike_deleted, st\<lparr>bikes := filter (\<lambda>x. bike_id x \<noteq> strip b) (bikes st)\<rparr>)) \<and>
    ((\<forall>k\<in>set (bookings st). booked_bike_id k = strip b \<longrightarrow>
          status k = ''Completed'' \<or> status k = ''Rejected'') \<longrightarrow>
       delete_bike b y st =
         (Bike_deleted, st\<lparr>bikes := filter (\<lambda>x. bike_id x \<noteq> strip b) (bikes st)\<rparr>)) \<and>
    (fst (delete_bike b y st) = Bike_deleted \<and> distinct (map bike_id (bikes st)) \<longrightarrow>
       (\<forall>x\<in>set (bikes st). bike_id x = strip b \<longrightarrow>
          bikes (snd (delete_bike b y st)) = remove1 x (bikes st)))"
proof -
  let ?act = "filter (\<lambda>k. booked_bike_id k = strip b \<and>
            (status k = ''Pending'' \<or> status k = ''Approved'')) (bookings st)"
  note d = delete_bike_found_confirmed [OF assms]
  have ex: "(\<exists>k\<in>set (bookings st). booked_bike_id k = strip b \<and>
          (status k = ''Pending'' \<or> status k = ''Approved'')) \<longleftrightarrow> ?act \<noteq> []"
    by (simp add: filter_empty_conv)
  have p1: "(\<exists>n. fst (delete_bike b y st) = Delete_blocked n) \<longleftrightarrow> ?act \<noteq> []"
    by (simp add: d)
  have p2: "?act \<noteq> [] \<longrightarrow> delete_bike b y st = (Delete_blocked (length ?act), st) \<and>
      0 < length ?act"
    by (simp add: d)
  have p2': "\<not> ?act \<noteq> [] \<longrightarrow> delete_bike b y st =
         (Bike_deleted, st\<lparr>bikes := filter (\<lambda>x. bike_id x \<noteq> strip b) (bikes st)\<rparr>)"
    by (simp add: d)
  have p3: "(\<forall>k\<in>set (bookings st). booked_bike_id k = strip b \<longrightarrow>
          status k = ''Completed'' \<or> status k = ''Rejected'') \<longrightarrow>
       delete_bike b y st =
         (Bike_deleted, st\<lparr>bikes := filter (\<lambda>x. bike_id x \<noteq> strip b) (bikes st)\<rparr>)"
  proof
    assume "\<forall>k\<in>set (bookings st). booked_bike_id k = strip b \<longrightarrow>
          status k = ''Completed'' \<or> status k = ''Rejected''"
    then have "?act = []"
      by (auto simp: filter_empty_conv)
    then show "delete_bike b y st =
         (Bike_deleted, st\<lparr>bikes := filter (\<lambda>x. bike_id x \<noteq> strip b) (bikes st)\<rparr>)"
      by (simp add: d)
  qed
  have p4: "fst (delete_bike b y st) = Bike_deleted \<and> distinct (map bike_id (bikes st)) \<longrightarrow>
       (\<forall>x\<in>set (bikes st). bike_id x = strip b \<longrightarrow>
          bikes (snd (delete_bike b y st)) = remove1 x (bikes st))"
  proof (intro impI ballI)
    fix x
    assume h: "fst (delete_bike b y st) = Bike_deleted \<and> distinct (map bike_id (bikes st))"
      and x: "x \<in> set (bikes st)" "bike_id x = strip b"
    from h have "?act = []"
      by (simp add: d split: if_splits)
    then have "bikes (snd (delete_bike b y st)) = filter (\<lambda>z. bike_id z \<noteq> bike_id x) (bikes st)"
      by (simp add: d x(2))
    also from h x(1) have "\<dots> = remove1 x (bikes st)"
      by (simp add: filter_remove1_distinct)
    finally show "bikes (snd (delete_bike b y st)) = remove1 x (bikes st)" .
  qed
  from p1 p2 p2' p3 p4 show ?thesis
    unfolding ex by blast
qed

text \<open>
  The claim as the specification words it fails where two bikes carry the
  identifier: in \<open>duplicate_store\<close> the only booking on \<open>BIKE0004\<close> is Rejected, the
  deletion succeeds, and of the six bikes four are left, so that more than the one
  bike found and shown to the admin has gone.
\<close>

theorem delete_bike_removes_duplicates:
  "fst (delete_bike ''BIKE0004'' ''yes'' duplicate_store) = Bike_deleted \<and>
   length (bikes duplicate_store) = 6 \<and>
   length (bikes (snd (delete_bike ''BIKE0004'' ''yes'' duplicate_store))) = 4 \<and>
   bikes (snd (delete_bike ''BIKE0004'' ''yes'' duplicate_store))
     \<noteq> remove1 (bikes duplicate_store ! 3) (bikes duplicate_store) \<and>
   bikes (snd (delete_bike ''BIKE0004'' ''yes'' duplicate_store))
     \<noteq> remove1 (bikes duplicate_store ! 5) (bikes duplicate_store)"
proof -
  have len: "length (bikes duplicate_store) = 6"
    by (simp add: duplicate_store_def add_bike_def store_eval)
  have r: "fst (delete_bike ''BIKE0004'' ''yes'' duplicate_store) = Bike_deleted"
    by (simp add: delete_bike_def duplicate_store_def add_bike_def store_eval)
  have l: "length (bikes (snd (delete_bike ''BIKE0004'' ''yes'' duplicate_store))) = 4"
    by (simp add: delete_bike_def duplicate_store_def add_bike_def store_eval)
  have l3: "length (remove1 (bikes duplicate_store ! 3) (bikes duplicate_store)) = 5"
    by (simp add: duplicate_store_def add_bike_def store_eval)
  have l5: "length (remove1 (bikes duplicate_store ! 5) (bikes duplicate_store)) = 5"
    by (simp add: duplicate_store_def add_bike_def store_eval)
  from l l3 have n3: "bikes (snd (delete_bike ''BIKE0004'' ''yes'' duplicate_store))
     \<noteq> remove1 (bikes duplicate_store ! 3) (bikes duplicate_store)"
    by auto
  from l l5 have n5: "bikes (snd (delete_bike ''BIKE0004'' ''yes'' duplicate_store))
     \<noteq> remove1 (bikes duplicate_store ! 5) (bikes duplicate_store)"
    by auto
  from r len l n3 n5 show ?thesis
    by simp
qed

theorem delete_bike_blocked_iff_active_witness:
  "delete_bike ''BIKE0001'' ''YES'' example_store = (Delete_blocked 1, example_store) \<and>
   delete_bike '' BIKE0004'' ''yes'' example_store =
     (Bike_deleted,
      example_store\<lparr>bikes := remove1 (bikes example_store ! 3) (bikes example_store)\<rparr>) \<and>
   length (bikes (snd (delete_bike '' BIKE0004'' ''yes'' example_store))) = 4"
proof -
  have f1: "\<exists>x\<in>set (bikes example_store). bike_id x = strip ''BIKE0001''"
    and f4: "\<exists>x\<in>set (bikes example_store). bike_id x = strip '' BIKE0004''"
    by (simp_all add: store_eval)
  have y1: "lower ''YES'' = ''yes''" and y4: "lower ''yes'' = ''yes''"
    by (simp_all add: store_eval)
  have a1: "\<exists>k\<in>set (bookings example_store). booked_bike_id k = strip ''BIKE0001'' \<and>
          (status k = ''Pending'' \<or> status k = ''Approved'')"
    by (simp add: store_eval)
  have n1: "length (filter (\<lambda>k. booked_bike_id k = strip ''BIKE0001'' \<and>
            (status k = ''Pending'' \<or> status k = ''Approved'')) (bookings example_store)) = 1"
    by (simp add: store_eval)
  have a4: "\<forall>k\<in>set (bookings example_store). booked_bike_id k = strip '' BIKE0004'' \<longrightarrow>
          status k = ''Completed'' \<or> status k = ''Rejected''"
    by (simp add: store_eval)
  have d4: "distinct (map bike_id (bikes example_store))"
    by (simp add: store_eval)
  have m4: "bikes example_store ! 3 \<in> set (bikes example_store) \<and>
      bike_id (bikes example_store ! 3) = strip '' BIKE0004''"
    by (simp add: store_eval)
  have l4: "length (remove1 (bikes example_store ! 3) (bikes example_store)) = 4"
    by (simp add: store_eval)
  have r1: "delete_bike ''BIKE0001'' ''YES'' example_store
      = (Delete_blocked (length (filter (\<lambda>k. booked_bike_id k = strip ''BIKE0001'' \<and>
            (status k = ''Pending'' \<or> status k = ''Approved'')) (bookings example_store))),
         example_store)"
    by (rule delete_bike_blocked_iff_active [OF f1 y1, THEN conjunct2, THEN conjunct1,
          rule_format, THEN conjunct1])
      (rule a1)
  have r4: "delete_bike '' BIKE0004'' ''yes'' example_store =
     (Bike_deleted, example_store\<lparr>bikes := filter (\<lambda>x. bike_id x \<noteq> strip '' BIKE0004'')
        (bikes example_store)\<rparr>)"
    by (rule delete_bike_blocked_iff_active [OF f4 y4, THEN conjunct2, THEN conjunct2,
          THEN conjunct2, THEN conjunct1, rule_format])
      (rule a4 [rule_format])
  have "bikes (snd (delete_bike '' BIKE0004'' ''yes'' example_store))
      = remove1 (bikes example_store ! 3) (bikes example_store)"
    by (rule delete_bike_blocked_iff_active [OF f4 y4, THEN conjunct2, THEN conjunct2,
          THEN conjunct2, THEN conjunct2, rule_format])
      (simp_all add: r4 d4 m4)
  with r4 have r5: "delete_bike '' BIKE0004'' ''yes'' example_store =
     (Bike_deleted,
      example_store\<lparr>bikes := remove1 (bikes example_store ! 3) (bikes example_store)\<rparr>)"
    by simp
  from r1 n1 r5 l4 show ?thesis by simp
qed

section \<open>Adding a bike\<close>

lemma add_bike_Some:
  "add_bike d n c p (Some r) l st =
     (Bike_added (''BIKE'' @ d),
      st\<lparr>bikes := bikes st @
        [\<lparr>bike_id = ''BIKE'' @ d, name = strip n, color = strip c, plate_number = strip p,
          price_per_day = r, location = strip l, available = True\<rparr>]\<rparr>)"
  by (simp add: add_bike_def Let_def)

text \<open>
  C6, as the code has it. The identifier of a new bike is \<open>BIKE\<close> followed by the
  digits drawn, whatever the collection holds: no check against the bikes already
  stored is made. The new bike is appended, so the identifiers of the collection
  are pairwise distinct afterwards exactly when they were before and no stored
  bike already carries the new identifier.
\<close>

theorem add_bike_identifier:
  "fst (add_bike d n c p (Some r) l st) = Bike_added (''BIKE'' @ d) \<and>
   map bike_id (bikes (snd (add_bike d n c p (Some r) l st)))
     = map bike_id (bikes st) @ [''BIKE'' @ d] \<and>
   (distinct (map bike_id (bikes (snd (add_bike d n c p (Some r) l st)))) \<longleftrightarrow>
      distinct (map bike_id (bikes st)) \<and> ''BIKE'' @ d \<notin> set (map bike_id (bikes st)))"
  by (simp add: add_bike_Some)

text \<open>
  The claim as the specification words it fails: the store already holds
  \<open>BIKE0001\<close>, the digits drawn are \<open>0001\<close>, and the bike is added under an
  identifier that another bike carries.
\<close>

theorem add_bike_identifier_collision:
  "fst (add_bike ''0001'' ''Hero Splendor'' ''Grey'' ''MH06KL1234'' (Some 18) ''Downtown''
      example_store) = Bike_added ''BIKE0001'' \<and>
   ''BIKE0001'' \<in> set (map bike_id (bikes example_store)) \<and>
   \<not> distinct (map bike_id (bikes (snd (add_bike ''0001'' ''Hero Splendor'' ''Grey''
     ''MH06KL1234'' (Some 18) ''Downtown'' example_store))))"
  by (simp add: add_bike_Some store_eval)

theorem add_bike_identifier_witness:
  "fst (add_bike ''0042'' ''Hero Splendor'' ''Grey'' ''MH06KL1234'' (Some 18) ''Downtown''
      example_store) = Bike_added ''BIKE0042'' \<and>
   distinct (map bike_id (bikes (snd (add_bike ''0042'' ''Hero Splendor'' ''Grey''
      ''MH06KL1234'' (Some 18) ''Downtown'' example_store))))"
proof -
  have "distinct (map bike_id (bikes example_store)) \<and>
      ''BIKE'' @ ''0042'' \<notin> set (map bike_id (bikes example_store))"
    by (simp add: store_eval)
  with add_bike_identifier [of "''0042''" "''Hero Splendor''" "''Grey''" "''MH06KL1234''" 18
      "''Downtown''" example_store]
  show ?thesis by simp
qed

text \<open>
  C7, as the code has it. The only check on the price is that \<open>float\<close> accepts what
  was typed. When it does not, nothing is added and the store is unchanged. When it
  does, the bike is appended with that price, available, whatever the sign of the
  price.
\<close>

theorem add_bike_price_check:
  "add_bike d n c p None l st = (Invalid_price, st) \<and>
   length (bikes (snd (add_bike d n c p (Some r) l st))) = Suc (length (bikes st)) \<and>
   take (length (bikes st)) (bikes (snd (add_bike d n c p (Some r) l st))) = bikes st \<and>
   price_per_day (last (bikes (snd (add_bike d n c p (Some r) l st)))) = r \<and>
   available (last (bikes (snd (add_bike d n c p (Some r) l st))))"
  by (simp add: add_bike_Some) (simp add: add_bike_def Let_def)

text \<open>
  A negative price is accepted: the bike is added and the collection grows.
\<close>

theorem add_bike_negative_price:
  "(-5 :: rat) < 0 \<and>
   fst (add_bike ''0042'' ''Hero Splendor'' ''Grey'' ''MH06KL1234'' (Some (-5)) ''Downtown''
      example_store) = Bike_added ''BIKE0042'' \<and>
   length (bikes (snd (add_bike ''0042'' ''Hero Splendor'' ''Grey'' ''MH06KL1234''
      (Some (-5)) ''Downtown'' example_store))) = 6 \<and>
   length (bikes example_store) = 5 \<and>
   price_per_day (last (bikes (snd (add_bike ''0042'' ''Hero Splendor'' ''Grey''
      ''MH06KL1234'' (Some (-5)) ''Downtown'' example_store)))) = -5"
  by (simp add: add_bike_Some store_eval)

theorem add_bike_price_check_witness:
  "add_bike ''0042'' ''Hero Splendor'' ''Grey'' ''MH06KL1234'' None ''Downtown'' example_store
     = (Invalid_price, example_store) \<and>
   price_per_day (last (bikes (snd (add_bike ''0042'' ''Hero Splendor'' ''Grey''
      ''MH06KL1234'' (Some 18) ''Downtown'' example_store)))) = 18"
  using add_bike_price_check [of "''0042''" "''Hero Splendor''" "''Grey''" "''MH06KL1234''"
      "''Downtown''" example_store 18]
  by simp

section \<open>Dates and amounts\<close>









section \<open>Accepting and refusing a booking request\<close>



text \<open>
  A from date equal to the current day. The source compares midnight of the from
  date with the current instant, so that at ten in the morning of 2024-01-01 a
  request starting on 2024-01-01 is answered with the message about a date in the
  past.
\<close>

lemma book_bike_same_day:
  "\<not> date_before
      \<lparr>year = 2024, month = 1, day = 1, hour = 0, minute = 0, second = 0, microsecond = 0\<rparr>
      \<lparr>year = 2024, month = 1, day = 1, hour = 10, minute = 0, second = 0, microsecond = 0\<rparr> \<and>
   book_bike ''alice'' ''downtown'' ''2024-01-01'' ''2024-01-03''
     \<lparr>year = 2024, month = 1, day = 1, hour = 10, minute = 0, second = 0, microsecond = 0\<rparr>
     (Some 1) ''yes'' ''000006'' example_store = (From_in_past, example_store)"
  by (simp add: book_bike_def date_before_def store_eval date_eval)




end
